theory Spec2Isabelle
  imports Complex_Main
begin

section \<open>Python floats\<close>

text \<open>
  A Python float is an IEEE binary64 number. A finite one is represented by the
  real number it denotes, and every arithmetic operation returns the exact
  result rounded to the nearest number with a 53-bit significand, ties going to
  the even significand. \<open>expo\<close> is the binary exponent of a non-zero number and
  \<open>ulp\<close> the spacing of the doubles in its binade.

  The exponent range is left unbounded in \<open>round64\<close>; the upper end of the
  range is handled by the operations below. The lower end is never reached by
  the distance computation: for a double \<open>x\<close> the difference \<open>x - 250000\<close> is
  zero or at least \<open>2 ^ -36\<close> in magnitude.
\<close>

definition pow2 :: "int \<Rightarrow> real" where
  "pow2 k = (if 0 \<le> k then 2 ^ nat k else 1 / 2 ^ nat (- k))"

definition expo :: "real \<Rightarrow> int" where
  "expo x = \<lfloor>log 2 \<bar>x\<bar>\<rfloor>"

definition ulp :: "real \<Rightarrow> real" where
  "ulp x = pow2 (expo x - 52)"

definition rne :: "real \<Rightarrow> int" where
  "rne r =
     (let n = \<lfloor>r\<rfloor>; f = r - of_int n
      in if f < 1 / 2 then n
         else if 1 / 2 < f then n + 1
         else if even n then n else n + 1)"

definition round64 :: "real \<Rightarrow> real" where
  "round64 x = (if x = 0 then 0 else of_int (rne (x / ulp x)) * ulp x)"


definition overflows :: "real \<Rightarrow> bool" where
  "overflows r = (2 ^ 1024 \<le> \<bar>r\<bar>)"

section \<open>Python values and operations\<close>

text \<open>
  The exceptions that the modelled code can raise, and the values that a cell
  of a float column, or an intermediate result, can take: a finite double,
  positive infinity, not-a-number, or \<open>None\<close>. Negative infinity does not arise
  from finite coordinates.
\<close>

datatype error = Invalid_Query | ValueError | TypeError | OverflowError

datatype pyval = Number real | PosInf | NaN | PyNone

definition and_then :: "error + 'a \<Rightarrow> ('a \<Rightarrow> error + 'b) \<Rightarrow> error + 'b" where
  "and_then m f = (case m of Inl e \<Rightarrow> Inl e | Inr v \<Rightarrow> f v)"

text \<open>
  \<open>x - c\<close> for an integer constant \<open>c\<close>, which is converted to a double without
  loss. Arithmetic on \<open>None\<close> raises a type error; not-a-number propagates.
  Subtracting the constant from a finite double cannot leave the finite range.
\<close>

fun py_sub :: "pyval \<Rightarrow> real \<Rightarrow> error + pyval" where
  "py_sub (Number a) c = Inr (Number (round64 (a - c)))"
| "py_sub PosInf c = Inr PosInf"
| "py_sub NaN c = Inr NaN"
| "py_sub PyNone c = Inl TypeError"

text \<open>
  \<open>a ** 2\<close>: the square, taken as correctly rounded; the power of a float raises
  an overflow error when the result is out of range.
\<close>

fun py_pow2 :: "pyval \<Rightarrow> error + pyval" where
  "py_pow2 (Number a) =
     (if overflows (round64 (a * a)) then Inl OverflowError
      else Inr (Number (round64 (a * a))))"
| "py_pow2 PosInf = Inr PosInf"
| "py_pow2 NaN = Inr NaN"
| "py_pow2 PyNone = Inl TypeError"

text \<open>\<open>a + b\<close>: a sum out of range is infinite, without an exception.\<close>

fun py_add :: "pyval \<Rightarrow> pyval \<Rightarrow> error + pyval" where
  "py_add PyNone b = Inl TypeError"
| "py_add a PyNone = Inl TypeError"
| "py_add NaN b = Inr NaN"
| "py_add a NaN = Inr NaN"
| "py_add PosInf b = Inr PosInf"
| "py_add a PosInf = Inr PosInf"
| "py_add (Number a) (Number b) =
     (if overflows (round64 (a + b)) then Inr PosInf else Inr (Number (round64 (a + b))))"

text \<open>\<open>math.sqrt\<close>: correctly rounded; a negative argument is a domain error.\<close>

fun math_sqrt :: "pyval \<Rightarrow> error + pyval" where
  "math_sqrt (Number a) = (if a < 0 then Inl ValueError else Inr (Number (round64 (sqrt a))))"
| "math_sqrt PosInf = Inr PosInf"
| "math_sqrt NaN = Inr NaN"
| "math_sqrt PyNone = Inl TypeError"

text \<open>\<open>a / c\<close> for a non-zero integer constant \<open>c\<close>.\<close>

fun py_div :: "pyval \<Rightarrow> real \<Rightarrow> error + pyval" where
  "py_div (Number a) c = Inr (Number (round64 (a / c)))"
| "py_div PosInf c = Inr PosInf"
| "py_div NaN c = Inr NaN"
| "py_div PyNone c = Inl TypeError"

section \<open>Process-wide constants\<close>

text \<open>
  The no-fly zone (NDZ) is a circle around the nest. Coordinates arrive in
  units of one thousandth of a metre. The constants are Python integers.
\<close>

definition CENTER_X :: real where
  "CENTER_X = 250000"

definition CENTER_Y :: real where
  "CENTER_Y = 250000"


section \<open>Geofence calculator\<close>

text \<open>
  The operands are evaluated from left to right, so the first exception met in
  that order is the one raised.
\<close>

definition distance_from_nest_in_meter :: "pyval \<Rightarrow> pyval \<Rightarrow> error + pyval" where
  "distance_from_nest_in_meter x y =
     and_then (py_sub x CENTER_X) (\<lambda>dx.
     and_then (py_pow2 dx) (\<lambda>dx2.
     and_then (py_sub y CENTER_Y) (\<lambda>dy.
     and_then (py_pow2 dy) (\<lambda>dy2.
     and_then (py_add dx2 dy2) (\<lambda>s.
     and_then (math_sqrt s) (\<lambda>r.
     py_div r 1000))))))"



section \<open>Backing-store rows\<close>

text \<open>
  Timestamps are abstract points on an integer time line. Coordinates are
  nullable floats. The pilot reference of a drone is nullable; its type is
  left open because the column is declared as an integer while the key it
  refers to is a string. The violation flag is a boolean.
\<close>

type_synonym datetime = int

record ViolatedPilots =
  pilot_id :: string
  first_name :: string
  last_name :: string
  phone_number :: string
  email :: string
  created_dt :: datetime
  last_violation_at :: datetime
  last_violation_x :: "real option"
  last_violation_y :: "real option"
  nearest_violation_x :: "real option"
  nearest_violation_y :: "real option"

record 'p Drones =
  serial_number :: string
  manufacturer :: string
  mac :: string
  ipv4 :: string
  ipv6 :: string
  firmware :: string
  position_x :: "real option"
  position_y :: "real option"
  altitude :: "real option"
  is_violating_ndz :: bool
  violated_pilot_id :: "'p option"
  created_at :: datetime
  updated_at :: datetime

section \<open>Data frames\<close>

text \<open>
  A data frame is a list of rows, each carrying its index label; building one
  from a list of dictionaries numbers the rows from zero. A column of nullable
  floats becomes a float column in which a missing value is not-a-number,
  unless every value is missing: then the column keeps the \<open>None\<close> objects. A
  row of the drone frame is the dictionary together with the cells of its two
  coordinate columns.

  Selecting with a boolean mask keeps the rows whose mask entry is true,
  labels included; selecting columns keeps every row and its label. Applying a
  function along the rows evaluates it row by row, in order, and the first
  exception ends the evaluation; the results become a new column.
\<close>

type_synonym 'r frame = "(nat \<times> 'r) list"

definition float_column :: "real option list \<Rightarrow> pyval list" where
  "float_column vs =
     (if list_all (\<lambda>v. v = None) vs then map (\<lambda>v. PyNone) vs
      else map (\<lambda>v. case v of None \<Rightarrow> NaN | Some r \<Rightarrow> Number r) vs)"

type_synonym 'p drone_row = "'p Drones \<times> pyval \<times> pyval"

definition DataFrame :: "'p Drones list \<Rightarrow> 'p drone_row frame" where
  "DataFrame drones =
     enumerate 0 (zip drones (zip (float_column (map position_x drones))
                                  (float_column (map position_y drones))))"


definition mask :: "('r \<Rightarrow> bool) \<Rightarrow> 'r frame \<Rightarrow> 'r frame" where
  "mask p df = filter (\<lambda>(i, r). p r) df"

definition columns :: "('r \<Rightarrow> 's) \<Rightarrow> 'r frame \<Rightarrow> 's frame" where
  "columns g df = map (\<lambda>(i, r). (i, g r)) df"

fun assign_apply :: "('r \<Rightarrow> error + 'c) \<Rightarrow> 'r frame \<Rightarrow> error + ('r \<times> 'c) frame" where
  "assign_apply f [] = Inr []"
| "assign_apply f ((i, r) # df) =
     and_then (f r) (\<lambda>c.
     and_then (assign_apply f df) (\<lambda>rest.
     Inr ((i, (r, c)) # rest)))"

definition isna :: "'a option \<Rightarrow> bool" where
  "isna v = (v = None)"

section \<open>Classification of drones\<close>

text \<open>
  The drone frame is annotated with the distance column first. A frame built
  from an empty list has no columns and the assignment of the new column
  raises a value error. The three position sets for plotting are then cut out
  of the annotated frame exactly as the main loop does. \<open>classification\<close>
  composes the annotation with these selections; the pilot frame, which the
  main loop builds in between, is not read by them.
\<close>

definition drones_df :: "'p Drones list \<Rightarrow> error + ('p drone_row \<times> pyval) frame" where
  "drones_df drones =
     (if drones = [] then Inl ValueError
      else assign_apply (\<lambda>(d, x, y). distance_from_nest_in_meter x y) (DataFrame drones))"

definition bad_drones :: "('p drone_row \<times> pyval) frame \<Rightarrow> (pyval \<times> pyval \<times> bool) frame" where
  "bad_drones df =
     columns (\<lambda>((d, x, y), meters). (x, y, is_violating_ndz d))
       (mask (\<lambda>((d, x, y), meters). isna (violated_pilot_id d)) df)"

definition bad_currently_violating ::
  "(pyval \<times> pyval \<times> bool) frame \<Rightarrow> (pyval \<times> pyval) frame" where
  "bad_currently_violating bad = columns (\<lambda>(x, y, v). (x, y)) (mask (\<lambda>(x, y, v). v) bad)"

definition bad_not_currently_violating ::
  "(pyval \<times> pyval \<times> bool) frame \<Rightarrow> (pyval \<times> pyval) frame" where
  "bad_not_currently_violating bad =
     columns (\<lambda>(x, y, v). (x, y)) (mask (\<lambda>(x, y, v). \<not> v) bad)"

definition good_drones :: "('p drone_row \<times> pyval) frame \<Rightarrow> (pyval \<times> pyval) frame" where
  "good_drones df =
     columns (\<lambda>((d, x, y), meters). (x, y))
       (mask (\<lambda>((d, x, y), meters). \<not> isna (violated_pilot_id d)) df)"

definition classification ::
  "'p Drones list \<Rightarrow>
   error + ((pyval \<times> pyval) frame \<times> (pyval \<times> pyval) frame \<times> (pyval \<times> pyval) frame)" where
  "classification drones =
     and_then (drones_df drones) (\<lambda>df.
     Inr (bad_currently_violating (bad_drones df),
          bad_not_currently_violating (bad_drones df),
          good_drones df))"

section \<open>Scenario drones\<close>

text \<open>
  Four concrete drones: one at the centre that is flagged and unlinked, one
  on the circle that is linked to pilot P1, one flagged and unlinked whose
  position is outside the circle, and one whose first coordinate is missing.
\<close>

definition D1 :: "string Drones" where
  "D1 = \<lparr>serial_number = ''D1'', manufacturer = [], mac = [], ipv4 = [], ipv6 = [],
          firmware = [], position_x = Some 250000, position_y = Some 250000, altitude = None,
          is_violating_ndz = True, violated_pilot_id = None,
          created_at = 0, updated_at = 0\<rparr>"

definition D2 :: "string Drones" where
  "D2 = \<lparr>serial_number = ''D2'', manufacturer = [], mac = [], ipv4 = [], ipv6 = [],
          firmware = [], position_x = Some 350000, position_y = Some 250000, altitude = None,
          is_violating_ndz = False, violated_pilot_id = Some ''P1'',
          created_at = 0, updated_at = 0\<rparr>"



section \<open>Queries against the backing store\<close>

text \<open>
  The query enumeration has two members. The argument of a query call is not
  checked against the enumeration before the call, so an argument is either a
  member or some foreign value.
\<close>

datatype Query = DRONES | PILOTS

datatype 'v query_arg = Member Query | Foreign 'v

datatype stmt = select_Drones | select_ViolatedPilots

definition string_to_stmt_factory :: "'v query_arg \<Rightarrow> error + stmt" where
  "string_to_stmt_factory q =
     (if q = Member DRONES then Inr select_Drones
      else if q = Member PILOTS then Inr select_ViolatedPilots
      else Inl Invalid_Query)"

definition ViolatedPilots_to_dict :: "ViolatedPilots \<Rightarrow> ViolatedPilots" where
  "ViolatedPilots_to_dict self =
     \<lparr>pilot_id = pilot_id self, first_name = first_name self, last_name = last_name self,
      phone_number = phone_number self, email = email self, created_dt = created_dt self,
      last_violation_at = last_violation_at self,
      last_violation_x = last_violation_x self, last_violation_y = last_violation_y self,
      nearest_violation_x = nearest_violation_x self,
      nearest_violation_y = nearest_violation_y self\<rparr>"

definition Drones_to_dict :: "'p Drones \<Rightarrow> 'p Drones" where
  "Drones_to_dict self =
     \<lparr>serial_number = serial_number self, manufacturer = manufacturer self, mac = mac self,
      ipv4 = ipv4 self, ipv6 = ipv6 self, firmware = firmware self,
      position_x = position_x self, position_y = position_y self, altitude = altitude self,
      is_violating_ndz = is_violating_ndz self, violated_pilot_id = violated_pilot_id self,
      created_at = created_at self, updated_at = updated_at self\<rparr>"

record 'p backing_store =
  drones_table :: "'p Drones list"
  violated_pilots_table :: "ViolatedPilots list"

datatype 'p results = DroneRows "'p Drones list" | PilotRows "ViolatedPilots list"

fun execute_all :: "'p backing_store \<Rightarrow> stmt \<Rightarrow> 'p results" where
  "execute_all db select_Drones = DroneRows (map Drones_to_dict (drones_table db))"
| "execute_all db select_ViolatedPilots =
     PilotRows (map ViolatedPilots_to_dict (violated_pilots_table db))"

text \<open>
  The body of the query function: the statement is chosen first, so a foreign
  argument fails before the backing store is touched.
\<close>

definition run_query_body :: "'p backing_store \<Rightarrow> 'v query_arg \<Rightarrow> error + 'p results" where
  "run_query_body db query =
     (case string_to_stmt_factory query of
        Inl e \<Rightarrow> Inl e
      | Inr stmt \<Rightarrow> Inr (execute_all db stmt))"

section \<open>Time-bounded query cache\<close>

definition ttl :: datetime where
  "ttl = 10"

text \<open>
  Modelled from the spec: the state of the memoising decorator, a mapping from
  the call argument to the stored snapshot and its capture time. The decorator
  belongs to the dashboard framework and is not part of the program text.
\<close>

record ('v, 'p) memo_cache =
  entries :: "'v query_arg \<rightharpoonup> ('p results \<times> datetime)"
  backing_store_reads :: nat

definition empty_cache :: "('v, 'p) memo_cache" where
  "empty_cache = \<lparr>entries = Map.empty, backing_store_reads = 0\<rparr>"

definition captured_at :: "('v, 'p) memo_cache \<Rightarrow> 'v query_arg \<Rightarrow> datetime option" where
  "captured_at st q = map_option snd (entries st q)"

text \<open>
  Modelled from the spec: what the memoising decorator does on a miss. Its
  implementation belongs to the dashboard framework and is not part of the
  program text. The body of the query function runs; a result that is not an
  error is stored under the call argument together with the capture time, and
  an error is passed on with nothing stored. The counter of backing-store
  reads is a ghost field.
\<close>

definition call_body ::
  "datetime \<Rightarrow> 'p backing_store \<Rightarrow> ('v, 'p) memo_cache \<Rightarrow> 'v query_arg
     \<Rightarrow> (error + 'p results) \<times> ('v, 'p) memo_cache" where
  "call_body now db st query =
     (case run_query_body db query of
        Inl e \<Rightarrow> (Inl e, st)
      | Inr rows \<Rightarrow>
          (Inr rows,
           st\<lparr>entries := (entries st)(query \<mapsto> (rows, now)),
              backing_store_reads := backing_store_reads st + 1\<rparr>))"

text \<open>
  Modelled from the spec: the lookup of the memoising decorator, used in the
  program with a time-to-live of 10. An entry is served while
  \<open>now - captured_at < ttl\<close>; otherwise the call is a miss.
\<close>

definition run_query ::
  "datetime \<Rightarrow> 'p backing_store \<Rightarrow> ('v, 'p) memo_cache \<Rightarrow> 'v query_arg
     \<Rightarrow> (error + 'p results) \<times> ('v, 'p) memo_cache" where
  "run_query now db st query =
     (case entries st query of
        None \<Rightarrow> call_body now db st query
      | Some (snapshot, t) \<Rightarrow>
          if now - t < ttl then (Inr snapshot, st) else call_body now db st query)"

text \<open>
  The cache states that can arise: the empty cache, followed by any sequence of
  calls, each at its own time and against the backing store as it is then.
\<close>

definition replay ::
  "(datetime \<times> 'p backing_store \<times> 'v query_arg) list \<Rightarrow> ('v, 'p) memo_cache" where
  "replay calls = foldl (\<lambda>st (now, db, q). snd (run_query now db st q)) empty_cache calls"

text \<open>
  An entry is stale for a call at time \<open>now\<close> when it is absent or its age has
  reached the time-to-live.
\<close>

definition stale :: "('v, 'p) memo_cache \<Rightarrow> 'v query_arg \<Rightarrow> datetime \<Rightarrow> bool" where
  "stale st q now = (case entries st q of None \<Rightarrow> True | Some (snapshot, t) \<Rightarrow> \<not> now - t < ttl)"

text \<open>The statement that belongs to each member of the enumeration.\<close>

definition stmt_of :: "Query \<Rightarrow> stmt" where
  "stmt_of k = (case k of DRONES \<Rightarrow> select_Drones | PILOTS \<Rightarrow> select_ViolatedPilots)"

section \<open>Scenario of three fetches\<close>

text \<open>
  Two contents of the backing store, the cache after one read of the first at
  time 0, and the cache states after fetching the drone set at times 0, 2, 9
  and 10, starting from the empty cache.
\<close>

definition store_a :: "string backing_store" where
  "store_a = \<lparr>drones_table = [D1], violated_pilots_table = []\<rparr>"

definition store_b :: "string backing_store" where
  "store_b = \<lparr>drones_table = [D1, D2], violated_pilots_table = []\<rparr>"

definition cache_a :: "(string, string) memo_cache" where
  "cache_a = \<lparr>entries = [Member DRONES \<mapsto> (DroneRows [D1], 0)], backing_store_reads = 1\<rparr>"

definition after_first :: "(string, string) memo_cache" where
  "after_first = snd (run_query 0 store_a empty_cache (Member DRONES))"

definition after_second :: "(string, string) memo_cache" where
  "after_second = snd (run_query 2 store_b after_first (Member DRONES))"

definition after_third :: "(string, string) memo_cache" where
  "after_third = snd (run_query 9 store_b after_second (Member DRONES))"

definition after_fourth :: "(string, string) memo_cache" where
  "after_fourth = snd (run_query 10 store_b after_third (Member DRONES))"

section \<open>Rounding to the nearest double\<close>

lemma pow2_powr: "pow2 k = 2 powr (of_int k)"
  by (simp add: pow2_def powr_int)

lemma pow2_pos: "0 < pow2 k"
  by (simp add: pow2_powr)


lemma pow2_less_iff: "pow2 j < pow2 k \<longleftrightarrow> j < k"
  by (simp add: pow2_powr)

lemma expo_eqI: "pow2 k \<le> \<bar>x\<bar> \<Longrightarrow> \<bar>x\<bar> < pow2 (k + 1) \<Longrightarrow> expo x = k"
proof -
  assume a: "pow2 k \<le> \<bar>x\<bar>" and b: "\<bar>x\<bar> < pow2 (k + 1)"
  from a have "0 < \<bar>x\<bar>" using pow2_pos [of k] by linarith
  then show ?thesis
    using a b unfolding expo_def by (simp add: floor_log_eq_powr_iff pow2_powr)
qed

lemma expo_bounds: "x \<noteq> 0 \<Longrightarrow> pow2 (expo x) \<le> \<bar>x\<bar> \<and> \<bar>x\<bar> < pow2 (expo x + 1)"
proof -
  assume "x \<noteq> 0"
  then have "0 < \<bar>x\<bar>" by simp
  from floor_log_eq_powr_iff [OF this, of 2 "expo x"] show ?thesis
    by (simp add: expo_def pow2_powr)
qed

lemma expo_minus: "expo (- x) = expo x"
  by (simp add: expo_def)

lemma ulp_minus: "ulp (- x) = ulp x"
  by (simp add: ulp_def expo_minus)



lemma rne_of_int: "rne (of_int n) = n"
  by (simp add: rne_def)


lemma rne_eqI: "of_int n - 1 / 2 < r \<Longrightarrow> r < of_int n + 1 / 2 \<Longrightarrow> rne r = n"
proof -
  assume a: "of_int n - 1 / 2 < r" and b: "r < of_int n + 1 / 2"
  have f: "of_int \<lfloor>r\<rfloor> \<le> r" "r < of_int \<lfloor>r\<rfloor> + 1"
    by linarith+
  consider "\<lfloor>r\<rfloor> = n" | "\<lfloor>r\<rfloor> = n - 1"
  proof -
    from a b f have "real_of_int \<lfloor>r\<rfloor> - of_int n < 1" "- 2 < real_of_int \<lfloor>r\<rfloor> - of_int n"
      by linarith+
    then have "\<lfloor>r\<rfloor> - n < 1" "- 2 < \<lfloor>r\<rfloor> - n"
      by linarith+
    then have "\<lfloor>r\<rfloor> = n \<or> \<lfloor>r\<rfloor> = n - 1" by linarith
    with that show ?thesis by blast
  qed
  then show ?thesis
  proof cases
    case 1
    with a b show ?thesis by (simp add: rne_def Let_def)
  next
    case 2
    with a b show ?thesis by (simp add: rne_def Let_def)
  qed
qed

lemma rne_tie_even: "even n \<Longrightarrow> rne (of_int n + 1 / 2) = n"
proof -
  have "\<lfloor>of_int n + (1 / 2 :: real)\<rfloor> = n"
    by (rule floor_unique) simp_all
  moreover assume "even n"
  ultimately show ?thesis by (simp add: rne_def Let_def)
qed

lemma rne_tie_odd: "odd n \<Longrightarrow> rne (of_int n + 1 / 2) = n + 1"
proof -
  have "\<lfloor>of_int n + (1 / 2 :: real)\<rfloor> = n"
    by (rule floor_unique) simp_all
  moreover assume "odd n"
  ultimately show ?thesis by (simp add: rne_def Let_def)
qed

lemma rne_minus: "rne (- r) = - rne r"
proof (cases "r = of_int \<lfloor>r\<rfloor>")
  case True
  then obtain n where "r = of_int n" ..
  then have "- r = of_int (- n)" "rne r = n"
    by (simp_all add: rne_of_int)
  then show ?thesis by (simp only: rne_of_int)
next
  case False
  define n where "n = \<lfloor>r\<rfloor>"
  have f: "of_int n < r" "r < of_int n + 1"
    using False unfolding n_def by linarith+
  have fm: "\<lfloor>- r\<rfloor> = - n - 1"
    by (rule floor_unique) (use f in simp_all)
  consider "r - of_int n < 1 / 2" | "1 / 2 < r - of_int n" | "r - of_int n = 1 / 2"
    by linarith
  then show ?thesis
  proof cases
    case 1
    then have "rne r = n" by (simp add: rne_def Let_def n_def)
    moreover from 1 have "rne (- r) = - n" by (simp add: rne_def Let_def fm)
    ultimately show ?thesis by simp
  next
    case 2
    then have "rne r = n + 1" by (simp add: rne_def Let_def n_def)
    moreover from 2 have "rne (- r) = - n - 1" by (simp add: rne_def Let_def fm)
    ultimately show ?thesis by simp
  next
    case 3
    then have r: "rne r = (if even n then n else n + 1)"
      by (simp add: rne_def Let_def n_def)
    from 3 have "- r - of_int (- n - 1) = 1 / 2" by simp
    then have "rne (- r) = (if even (- n - 1) then - n - 1 else - n)"
      by (simp add: rne_def Let_def fm)
    with r show ?thesis by simp
  qed
qed


lemma round64_minus: "round64 (- x) = - round64 x"
  by (simp add: round64_def ulp_minus rne_minus)

lemma round64_zero: "round64 0 = 0"
  by (simp add: round64_def)


lemma round64_eval: "pow2 k \<le> \<bar>x\<bar> \<Longrightarrow> \<bar>x\<bar> < pow2 (k + 1) \<Longrightarrow>
    round64 x = of_int (rne (x / pow2 (k - 52))) * pow2 (k - 52)"
proof -
  assume a: "pow2 k \<le> \<bar>x\<bar>" and b: "\<bar>x\<bar> < pow2 (k + 1)"
  then have "expo x = k" by (rule expo_eqI)
  moreover from a have "x \<noteq> 0" using pow2_pos [of k] by auto
  ultimately show ?thesis by (simp add: round64_def ulp_def)
qed

lemma round64_exact: "pow2 k \<le> \<bar>x\<bar> \<Longrightarrow> \<bar>x\<bar> < pow2 (k + 1) \<Longrightarrow>
    x / pow2 (k - 52) = of_int n \<Longrightarrow> round64 x = x"
proof -
  assume a: "pow2 k \<le> \<bar>x\<bar>" and b: "\<bar>x\<bar> < pow2 (k + 1)" and c: "x / pow2 (k - 52) = of_int n"
  from c have "x = of_int n * pow2 (k - 52)"
    using pow2_pos [of "k - 52"] by (simp add: field_simps)
  moreover have "round64 x = of_int (rne (of_int n)) * pow2 (k - 52)"
    using round64_eval [OF a b] c by simp
  ultimately show ?thesis by (simp add: rne_of_int)
qed



lemma round64_of_int: "\<bar>n\<bar> < 2 ^ 53 \<Longrightarrow> round64 (of_int n) = of_int n"
proof (cases "n = 0")
  case True
  then show ?thesis by (simp add: round64_zero)
next
  case False
  assume small: "\<bar>n\<bar> < 2 ^ 53"
  define x :: real where "x = of_int n"
  define k where "k = expo x"
  from False have x0: "x \<noteq> 0" by (simp add: x_def)
  from expo_bounds [OF x0] have b: "pow2 k \<le> \<bar>x\<bar>" "\<bar>x\<bar> < pow2 (k + 1)"
    by (simp_all add: k_def)
  from small have "\<bar>x\<bar> < pow2 53"
  proof -
    from small have "real_of_int \<bar>n\<bar> < of_int (2 ^ 53)" by (simp only: of_int_less_iff)
    then show ?thesis by (simp add: x_def pow2_def)
  qed
  with b(1) have "pow2 k < pow2 53" by linarith
  then have k: "k \<le> 52" by (simp add: pow2_less_iff)
  then have "pow2 (k - 52) = 1 / 2 ^ nat (52 - k)"
    by (cases "k = 52") (simp_all add: pow2_def)
  then have "x / pow2 (k - 52) = of_int (n * 2 ^ nat (52 - k))"
    by (simp add: x_def)
  from round64_exact [OF b this] show ?thesis by (simp add: x_def)
qed

lemma round64_numeral [simp]:
  "\<bar>numeral w :: int\<bar> < 2 ^ 53 \<Longrightarrow> round64 (numeral w) = numeral w"
  using round64_of_int [of "numeral w"] by simp




section \<open>Properties of the geofence calculator\<close>

lemma and_then_simps [simp]: "and_then (Inl e) f = Inl e" "and_then (Inr v) f = f v"
  by (simp_all add: and_then_def)

lemma distance_center: "distance_from_nest_in_meter (Number CENTER_X) (Number CENTER_Y) = Inr (Number 0)"
  by (simp add: distance_from_nest_in_meter_def round64_zero overflows_def)

lemma distance_D1: "distance_from_nest_in_meter (Number 250000) (Number 250000) = Inr (Number 0)"
  using distance_center by (simp add: CENTER_X_def CENTER_Y_def)

lemma distance_D2: "distance_from_nest_in_meter (Number 350000) (Number 250000) = Inr (Number 100)"
proof -
  have s: "sqrt (10000000000::real) = 100000"
    by (rule real_sqrt_unique) simp_all
  show ?thesis
    by (simp add: distance_from_nest_in_meter_def CENTER_X_def CENTER_Y_def round64_zero
        overflows_def s)
qed


lemma distance_150000:
  "distance_from_nest_in_meter (Number 150000) (Number 250000) = Inr (Number 100)"
proof -
  have s: "sqrt (10000000000::real) = 100000"
    by (rule real_sqrt_unique) simp_all
  have "round64 (- 100000) = - 100000"
    by (simp only: round64_minus) simp
  then show ?thesis
    by (simp add: distance_from_nest_in_meter_def CENTER_X_def CENTER_Y_def round64_zero
        overflows_def s)
qed

lemma distance_500000:
  "distance_from_nest_in_meter (Number 500000) (Number 250000) = Inr (Number 250)"
proof -
  have s: "sqrt (62500000000::real) = 250000"
    by (rule real_sqrt_unique) simp_all
  show ?thesis
    by (simp add: distance_from_nest_in_meter_def CENTER_X_def CENTER_Y_def round64_zero
        overflows_def s)
qed

lemma round64_mirror: "round64 (2 * c - x - c) = - round64 (x - c)"
proof -
  have "2 * c - x - c = - (x - c)" by simp
  then show ?thesis by (simp only: round64_minus)
qed

lemma py_sub_mirror: "py_sub (Number (2 * c - x)) c = Inr (Number (- round64 (x - c)))"
  by (simp only: py_sub.simps round64_mirror)

lemma py_pow2_minus: "py_pow2 (Number (- a)) = py_pow2 (Number a)"
  by simp

lemma distance_mirror:
  "distance_from_nest_in_meter (Number (2 * CENTER_X - x)) (Number (2 * CENTER_Y - y))
     = distance_from_nest_in_meter (Number x) (Number y)"
  unfolding distance_from_nest_in_meter_def py_sub_mirror and_then_simps py_pow2_minus
  by (simp only: py_sub.simps and_then_simps)



lemma not_overflows: "\<bar>r\<bar> \<le> 2 ^ 1007 \<Longrightarrow> \<not> overflows r"
proof -
  assume "\<bar>r\<bar> \<le> 2 ^ 1007"
  moreover have "(2 ^ 1007 :: real) < 2 ^ 1024" by (rule power_strict_increasing) simp_all
  ultimately show ?thesis by (simp add: overflows_def)
qed











lemma mirror_rounds: "round64 (2 * 250000 - 1 / 2 ^ 35) = 500000"
proof -
  let ?x = "2 * 250000 - 1 / 2 ^ 35 :: real"
  have b: "pow2 18 \<le> \<bar>?x\<bar>" "\<bar>?x\<bar> < pow2 (18 + 1)"
    by (simp_all add: pow2_def)
  have e: "?x / pow2 (18 - 52) = of_int 8589934591999999 + 1 / 2"
    by (simp add: pow2_def)
  have "rne (of_int 8589934591999999 + 1 / 2) = 8589934591999999 + 1"
    by (rule rne_tie_odd) simp
  then have "rne (?x / pow2 (18 - 52)) = 8589934592000000"
    by (simp only: e)
  moreover have "round64 ?x = of_int (rne (?x / pow2 (18 - 52))) * pow2 (18 - 52)"
    by (rule round64_eval [OF b])
  ultimately have "round64 ?x = of_int 8589934592000000 * pow2 (18 - 52)"
    by (simp only:)
  then show ?thesis by (simp add: pow2_def)
qed

lemma offset_exact: "round64 (1 / 2 ^ 35 - 250000) = 1 / 2 ^ 35 - 250000"
proof -
  let ?x = "1 / 2 ^ 35 - 250000 :: real"
  have b: "pow2 17 \<le> \<bar>?x\<bar>" "\<bar>?x\<bar> < pow2 (17 + 1)"
    by (simp_all add: pow2_def)
  have "?x / pow2 (17 - 52) = of_int (- 8589934591999999)"
    by (simp add: pow2_def)
  from round64_exact [OF b this] show ?thesis .
qed

lemma square_rounds:
  "round64 ((1 / 2 ^ 35 - 250000) * (1 / 2 ^ 35 - 250000)) = 62500000000 - 1 / 2 ^ 16"
proof -
  let ?x = "(1 / 2 ^ 35 - 250000) * (1 / 2 ^ 35 - 250000) :: real"
  have b: "pow2 35 \<le> \<bar>?x\<bar>" "\<bar>?x\<bar> < pow2 (35 + 1)"
    by (simp_all add: pow2_def)
  have "rne (?x / pow2 (35 - 52)) = 8191999999999998"
    by (rule rne_eqI) (simp_all add: pow2_def)
  then have "round64 ?x = of_int 8191999999999998 * pow2 (35 - 52)"
    using round64_eval [OF b] by simp
  then show ?thesis by (simp add: pow2_def)
qed

lemma sum_exact: "round64 (62500000000 - 1 / 2 ^ 16 + 0) = 62500000000 - 1 / 2 ^ 16"
proof -
  let ?x = "62500000000 - 1 / 2 ^ 16 + 0 :: real"
  have b: "pow2 35 \<le> \<bar>?x\<bar>" "\<bar>?x\<bar> < pow2 (35 + 1)"
    by (simp_all add: pow2_def)
  have "?x / pow2 (35 - 52) = of_int 8191999999999998"
    by (simp add: pow2_def)
  from round64_exact [OF b this] show ?thesis by simp
qed

lemma sqrt_rounds: "round64 (sqrt (62500000000 - 1 / 2 ^ 16)) = 250000 - 1 / 2 ^ 35"
proof -
  let ?s = "62500000000 - 1 / 2 ^ 16 :: real"
  have lo: "(8589934591999999 - 1 / 2) / 2 ^ 35 < sqrt ?s"
    by (rule real_less_rsqrt) (simp add: power2_eq_square)
  have hi: "sqrt ?s < (8589934591999999 + 1 / 2) / 2 ^ 35"
    by (rule real_less_lsqrt) (simp_all add: power2_eq_square)
  have b: "pow2 17 \<le> \<bar>sqrt ?s\<bar>" "\<bar>sqrt ?s\<bar> < pow2 (17 + 1)"
    using lo hi by (simp_all add: pow2_def)
  have "rne (sqrt ?s / pow2 (17 - 52)) = 8589934591999999"
    by (rule rne_eqI) (use lo hi in \<open>simp_all add: pow2_def field_simps\<close>)
  then have "round64 (sqrt ?s) = of_int 8589934591999999 * pow2 (17 - 52)"
    using round64_eval [OF b] by simp
  then show ?thesis by (simp add: pow2_def)
qed

lemma div_rounds: "round64 ((250000 - 1 / 2 ^ 35) / 1000) = 250 - 1 / 2 ^ 45"
proof -
  let ?x = "(250000 - 1 / 2 ^ 35) / 1000 :: real"
  have b: "pow2 7 \<le> \<bar>?x\<bar>" "\<bar>?x\<bar> < pow2 (7 + 1)"
    by (simp_all add: pow2_def)
  have "rne (?x / pow2 (7 - 52)) = 8796093022207999"
    by (rule rne_eqI) (simp_all add: pow2_def)
  then have "round64 ?x = of_int 8796093022207999 * pow2 (7 - 52)"
    using round64_eval [OF b] by simp
  then show ?thesis by (simp add: pow2_def)
qed

lemma distance_near_origin:
  "distance_from_nest_in_meter (Number (1 / 2 ^ 35)) (Number 250000)
     = Inr (Number (250 - 1 / 2 ^ 45))"
proof -
  have no: "\<not> overflows (62500000000 - 1 / 2 ^ 16)"
    by (rule not_overflows) simp
  have pos: "\<not> (62500000000 - 1 / 2 ^ 16 :: real) < 0"
    by simp
  have x1: "py_sub (Number (1 / 2 ^ 35)) 250000 = Inr (Number (1 / 2 ^ 35 - 250000))"
    by (simp only: py_sub.simps offset_exact)
  have x2: "py_pow2 (Number (1 / 2 ^ 35 - 250000)) = Inr (Number (62500000000 - 1 / 2 ^ 16))"
    by (simp only: py_pow2.simps square_rounds no if_False)
  have y1: "py_sub (Number 250000) 250000 = Inr (Number 0)"
    by (simp add: round64_zero)
  have y2: "py_pow2 (Number 0) = Inr (Number 0)"
    by (simp add: round64_zero overflows_def)
  have s: "py_add (Number (62500000000 - 1 / 2 ^ 16)) (Number 0)
      = Inr (Number (62500000000 - 1 / 2 ^ 16))"
    by (simp only: py_add.simps sum_exact no if_False)
  have r: "math_sqrt (Number (62500000000 - 1 / 2 ^ 16)) = Inr (Number (250000 - 1 / 2 ^ 35))"
    by (simp only: math_sqrt.simps pos if_False sqrt_rounds)
  have d: "py_div (Number (250000 - 1 / 2 ^ 35)) 1000 = Inr (Number (250 - 1 / 2 ^ 45))"
    by (simp only: py_div.simps div_rounds)
  show ?thesis
    unfolding distance_from_nest_in_meter_def CENTER_X_def CENTER_Y_def
    by (simp only: x1 x2 y1 y2 s r d and_then_simps)
qed

text \<open>
  C8, as stated: the distance is the same at a position and at its mirror
  image about the centre. This fails when the mirror image itself is computed
  in double arithmetic: for the double \<open>x = 2 ^ -35\<close> the difference
  \<open>2 * 250000 - x\<close> rounds to 500000, where the distance is 250, while the distance
  at \<open>x\<close> is \<open>250 - 2 ^ -45\<close>.
\<close>

theorem reflection_counterexample:
  "round64 (1 / 2 ^ 35) = 1 / 2 ^ 35 \<and> round64 250000 = 250000
   \<and> distance_from_nest_in_meter (Number (round64 (2 * CENTER_X - 1 / 2 ^ 35)))
        (Number (round64 (2 * CENTER_Y - 250000)))
      \<noteq> distance_from_nest_in_meter (Number (1 / 2 ^ 35)) (Number 250000)"
proof -
  have x: "round64 (1 / 2 ^ 35) = 1 / 2 ^ 35"
  proof -
    have b: "pow2 (- 35) \<le> \<bar>1 / 2 ^ 35 :: real\<bar>" "\<bar>1 / 2 ^ 35 :: real\<bar> < pow2 (- 35 + 1)"
      by (simp_all add: pow2_def)
    have "(1 / 2 ^ 35 :: real) / pow2 (- 35 - 52) = of_int (2 ^ 52)"
      by (simp add: pow2_def)
    from round64_exact [OF b this] show ?thesis .
  qed
  have m: "round64 (2 * CENTER_X - 1 / 2 ^ 35) = 500000"
    using mirror_rounds by (simp only: CENTER_X_def)
  have n: "round64 (2 * CENTER_Y - 250000) = 250000"
    by (simp add: CENTER_Y_def)
  have "(250 - 1 / 2 ^ 45 :: real) \<noteq> 250" by simp
  then show ?thesis
    unfolding m n distance_500000 distance_near_origin using x by simp
qed

text \<open>
  C8, amended: the distance at the centre is zero, and the distance at the
  exact mirror image of a position equals the distance at the position; so the
  two distances agree whenever the mirror image is computed without rounding,
  as it is for every integer-valued position of the plane.
\<close>

theorem distance_center_reflection:
  "distance_from_nest_in_meter (Number CENTER_X) (Number CENTER_Y) = Inr (Number 0)
   \<and> distance_from_nest_in_meter (Number (2 * CENTER_X - x)) (Number (2 * CENTER_Y - y))
       = distance_from_nest_in_meter (Number x) (Number y)
   \<and> (round64 (2 * CENTER_X - x) = 2 * CENTER_X - x
       \<and> round64 (2 * CENTER_Y - y) = 2 * CENTER_Y - y
      \<longrightarrow> distance_from_nest_in_meter (Number (round64 (2 * CENTER_X - x)))
             (Number (round64 (2 * CENTER_Y - y)))
           = distance_from_nest_in_meter (Number x) (Number y))"
  using distance_center distance_mirror [of x y] by simp

theorem distance_center_reflection_witness:
  "round64 (2 * CENTER_X - 350000) = 2 * CENTER_X - 350000
   \<and> round64 (2 * CENTER_Y - 250000) = 2 * CENTER_Y - 250000
   \<and> distance_from_nest_in_meter (Number (round64 (2 * CENTER_X - 350000)))
        (Number (round64 (2 * CENTER_Y - 250000))) = Inr (Number 100)
   \<and> distance_from_nest_in_meter (Number 350000) (Number 250000) = Inr (Number 100)"
proof -
  have h: "round64 (2 * CENTER_X - 350000) = 2 * CENTER_X - 350000
      \<and> round64 (2 * CENTER_Y - 250000) = 2 * CENTER_Y - 250000"
    by (simp add: CENTER_X_def CENTER_Y_def)
  from h distance_D2 distance_center_reflection [of 350000 250000]
  show ?thesis by simp
qed

section \<open>Properties of the drone frame\<close>














lemma drones_df_D1_D2:
  "drones_df [D1, D2] =
     Inr [(0, ((D1, Number 250000, Number 250000), Number 0)),
          (1, ((D2, Number 350000, Number 250000), Number 100))]"
  by (simp add: drones_df_def DataFrame_def float_column_def D1_def D2_def distance_D1 distance_D2)







section \<open>Properties of the classification\<close>














lemma classification_D1_D2:
  "classification [D1, D2] =
     Inr ([(0, (Number 250000, Number 250000))], [], [(1, (Number 350000, Number 250000))])"
  unfolding classification_def drones_df_D1_D2
  by (simp add: bad_currently_violating_def bad_not_currently_violating_def bad_drones_def
      good_drones_def columns_def mask_def isna_def D1_def D2_def)









text \<open>
  C7: drone D1 at the centre, flagged and unlinked, has distance 0 and is in
  the first category; drone D2 at (350000, 250000), linked to pilot P1, has
  distance 100 and is in the third category.
\<close>

theorem scenario_D1_D2:
  "distance_from_nest_in_meter (Number 250000) (Number 250000) = Inr (Number 0)
   \<and> distance_from_nest_in_meter (Number 350000) (Number 250000) = Inr (Number 100)
   \<and> position_x D1 = Some 250000 \<and> position_y D1 = Some 250000
   \<and> position_x D2 = Some 350000 \<and> position_y D2 = Some 250000
   \<and> drones_df [D1, D2] =
       Inr [(0, ((D1, Number 250000, Number 250000), Number 0)),
            (1, ((D2, Number 350000, Number 250000), Number 100))]
   \<and> classification [D1, D2] =
       Inr ([(0, (Number 250000, Number 250000))], [], [(1, (Number 350000, Number 250000))])"
  using distance_D1 distance_D2 drones_df_D1_D2 classification_D1_D2
  by (simp add: D1_def D2_def)



section \<open>Properties of the query cache\<close>

lemma Drones_to_dict_id: "Drones_to_dict d = d"
  by (simp add: Drones_to_dict_def)

lemma ViolatedPilots_to_dict_id: "ViolatedPilots_to_dict p = p"
  by (simp add: ViolatedPilots_to_dict_def)

lemma run_query_body_Member:
  "run_query_body db (Member k) = Inr (execute_all db (stmt_of k))"
  by (cases k) (simp_all add: run_query_body_def string_to_stmt_factory_def stmt_of_def)

lemma run_query_body_Foreign: "run_query_body db (Foreign v) = Inl Invalid_Query"
  by (simp add: run_query_body_def string_to_stmt_factory_def)

lemma call_body_Member:
  "call_body now db st (Member k) =
     (Inr (execute_all db (stmt_of k)),
      st\<lparr>entries := (entries st)(Member k \<mapsto> (execute_all db (stmt_of k), now)),
         backing_store_reads := backing_store_reads st + 1\<rparr>)"
  by (simp add: call_body_def run_query_body_Member)

lemma call_body_Foreign: "call_body now db st (Foreign v) = (Inl Invalid_Query, st)"
  by (simp add: call_body_def run_query_body_Foreign)

lemma run_query_hit:
  "entries st q = Some (snapshot, t) \<Longrightarrow> now - t < ttl \<Longrightarrow> run_query now db st q = (Inr snapshot, st)"
  by (simp add: run_query_def)

lemma run_query_stale:
  "stale st q now \<Longrightarrow> run_query now db st q = call_body now db st q"
  by (auto simp: run_query_def stale_def split: option.splits)

lemma no_foreign_step:
  "entries st (Foreign v) = None \<Longrightarrow> entries (snd (run_query now db st q)) (Foreign v) = None"
  by (cases q)
     (auto simp: run_query_def call_body_Member call_body_Foreign split: option.splits)

lemma no_foreign_foldl:
  "entries st (Foreign v) = None \<Longrightarrow>
   entries (foldl (\<lambda>st (now, db, q). snd (run_query now db st q)) st calls) (Foreign v) = None"
proof (induction calls arbitrary: st)
  case Nil
  then show ?case by simp
next
  case (Cons c calls)
  obtain now db q where c: "c = (now, db, q)" by (cases c)
  from Cons.prems have "entries (snd (run_query now db st q)) (Foreign v) = None"
    by (rule no_foreign_step)
  from Cons.IH [OF this] show ?case by (simp add: c)
qed

lemma replay_no_foreign: "entries (replay calls) (Foreign v) = None"
  unfolding replay_def by (rule no_foreign_foldl) (simp add: empty_cache_def)

text \<open>
  C5: a call with an argument that is not one of the two members of the query
  enumeration fails with the invalid-query error, before the backing store is
  read, and in every cache state that a sequence of calls can produce it leaves
  the cache, and so every entry, as it was.
\<close>

theorem invalid_query_kind:
  "string_to_stmt_factory (Foreign v) = Inl Invalid_Query
   \<and> run_query_body db (Foreign v) = Inl Invalid_Query
   \<and> run_query now db (replay calls) (Foreign v) = (Inl Invalid_Query, replay calls)"
  by (simp add: run_query_def replay_no_foreign call_body_Foreign run_query_body_Foreign
      string_to_stmt_factory_def)

text \<open>
  C4: for each query kind, a fetch while the stored snapshot is younger than
  the time-to-live of 10 returns that snapshot and leaves the cache and the
  read counter untouched, whatever the backing store holds by then; a fetch on
  a stale entry reads the backing store, returns the fresh rows and replaces
  the entry; so a miss followed by a fetch within the window costs exactly one
  read and both fetches return the same snapshot.
\<close>

theorem ttl_cache_behaviour:
  "(entries st (Member k) = Some (snapshot, t) \<and> now - t < ttl
      \<longrightarrow> run_query now db st (Member k) = (Inr snapshot, st))
   \<and> (stale st' (Member k) now'
      \<longrightarrow> (\<exists>rows. run_query_body db' (Member k) = Inr rows
            \<and> run_query now' db' st' (Member k) =
                (Inr rows,
                 st'\<lparr>entries := (entries st')(Member k \<mapsto> (rows, now')),
                     backing_store_reads := backing_store_reads st' + 1\<rparr>)))
   \<and> (stale st0 (Member k) t1 \<and> t2 - t1 < ttl
      \<longrightarrow> fst (run_query t2 db2 (snd (run_query t1 db1 st0 (Member k))) (Member k))
            = fst (run_query t1 db1 st0 (Member k))
          \<and> snd (run_query t2 db2 (snd (run_query t1 db1 st0 (Member k))) (Member k))
            = snd (run_query t1 db1 st0 (Member k))
          \<and> backing_store_reads
              (snd (run_query t2 db2 (snd (run_query t1 db1 st0 (Member k))) (Member k)))
            = backing_store_reads st0 + 1)
   \<and> ttl = 10"
proof (intro conjI impI)
  assume "entries st (Member k) = Some (snapshot, t) \<and> now - t < ttl"
  then show "run_query now db st (Member k) = (Inr snapshot, st)"
    by (simp add: run_query_hit)
next
  assume "stale st' (Member k) now'"
  then have "run_query now' db' st' (Member k) = call_body now' db' st' (Member k)"
    by (rule run_query_stale)
  then show "\<exists>rows. run_query_body db' (Member k) = Inr rows
            \<and> run_query now' db' st' (Member k) =
                (Inr rows,
                 st'\<lparr>entries := (entries st')(Member k \<mapsto> (rows, now')),
                     backing_store_reads := backing_store_reads st' + 1\<rparr>)"
    by (simp add: call_body_Member run_query_body_Member)
next
  assume a: "stale st0 (Member k) t1 \<and> t2 - t1 < ttl"
  define rows where "rows = execute_all db1 (stmt_of k)"
  define st1 where "st1 = st0\<lparr>entries := (entries st0)(Member k \<mapsto> (rows, t1)),
      backing_store_reads := backing_store_reads st0 + 1\<rparr>"
  from a have first: "run_query t1 db1 st0 (Member k) = (Inr rows, st1)"
    by (simp add: run_query_stale call_body_Member rows_def st1_def)
  have "entries st1 (Member k) = Some (rows, t1)"
    by (simp add: st1_def)
  with a have second: "run_query t2 db2 st1 (Member k) = (Inr rows, st1)"
    by (simp add: run_query_hit)
  show "fst (run_query t2 db2 (snd (run_query t1 db1 st0 (Member k))) (Member k))
            = fst (run_query t1 db1 st0 (Member k))"
    by (simp add: first second)
  show "snd (run_query t2 db2 (snd (run_query t1 db1 st0 (Member k))) (Member k))
            = snd (run_query t1 db1 st0 (Member k))"
    by (simp add: first second)
  show "backing_store_reads
              (snd (run_query t2 db2 (snd (run_query t1 db1 st0 (Member k))) (Member k)))
            = backing_store_reads st0 + 1"
    by (simp add: first second) (simp add: st1_def)
next
  show "ttl = 10" by (simp add: ttl_def)
qed

lemma eval_a: "run_query 0 store_a (empty_cache :: (string, string) memo_cache) (Member DRONES)
    = (Inr (DroneRows [D1]), cache_a)"
  by (simp add: run_query_def call_body_def run_query_body_def string_to_stmt_factory_def
      empty_cache_def cache_a_def store_a_def Drones_to_dict_id)

theorem ttl_cache_behaviour_witness:
  "entries cache_a (Member DRONES) = Some (DroneRows [D1], 0) \<and> (9::int) - 0 < ttl
   \<and> run_query 9 store_b cache_a (Member DRONES) = (Inr (DroneRows [D1]), cache_a)
   \<and> stale cache_a (Member DRONES) 10
   \<and> run_query 10 store_b cache_a (Member DRONES) =
       (Inr (DroneRows [D1, D2]),
        cache_a\<lparr>entries := (entries cache_a)(Member DRONES \<mapsto> (DroneRows [D1, D2], 10)),
               backing_store_reads := backing_store_reads cache_a + 1\<rparr>)
   \<and> stale (empty_cache :: (string, string) memo_cache) (Member DRONES) 0 \<and> (9::int) - 0 < ttl
   \<and> fst (run_query 9 store_b (snd (run_query 0 store_a (empty_cache :: (string, string) memo_cache) (Member DRONES))) (Member DRONES))
       = Inr (DroneRows [D1])
   \<and> backing_store_reads
        (snd (run_query 9 store_b (snd (run_query 0 store_a (empty_cache :: (string, string) memo_cache) (Member DRONES))) (Member DRONES)))
       = 1"
proof -
  have hit: "entries cache_a (Member DRONES) = Some (DroneRows [D1], 0) \<and> (9::int) - 0 < ttl"
    by (simp add: cache_a_def ttl_def)
  have old: "stale cache_a (Member DRONES) 10"
    by (simp add: stale_def cache_a_def ttl_def)
  have new: "stale (empty_cache :: (string, string) memo_cache) (Member DRONES) 0"
    by (simp add: stale_def empty_cache_def)
  have rows: "run_query_body store_b (Member DRONES) = Inr (DroneRows [D1, D2])"
    by (simp add: run_query_body_def string_to_stmt_factory_def store_b_def Drones_to_dict_id)
  have e: "backing_store_reads (empty_cache :: (string, string) memo_cache) = 0"
    by (simp add: empty_cache_def)
  note inst = ttl_cache_behaviour [of cache_a DRONES "DroneRows [D1]" 0 9 store_b cache_a 10
      store_b empty_cache 0 9 store_b store_a]
  from inst hit have c1: "run_query 9 store_b cache_a (Member DRONES) = (Inr (DroneRows [D1]), cache_a)"
    by blast
  from inst old obtain r where r: "run_query_body store_b (Member DRONES) = Inr r"
    and q: "run_query 10 store_b cache_a (Member DRONES) =
       (Inr r,
        cache_a\<lparr>entries := (entries cache_a)(Member DRONES \<mapsto> (r, 10)),
               backing_store_reads := backing_store_reads cache_a + 1\<rparr>)"
    by blast
  from r rows have "r = DroneRows [D1, D2]"
    by (metis sum.inject(2))
  with q have c2: "run_query 10 store_b cache_a (Member DRONES) =
       (Inr (DroneRows [D1, D2]),
        cache_a\<lparr>entries := (entries cache_a)(Member DRONES \<mapsto> (DroneRows [D1, D2], 10)),
               backing_store_reads := backing_store_reads cache_a + 1\<rparr>)"
    by simp
  from inst new hit have c3: "fst (run_query 9 store_b (snd (run_query 0 store_a (empty_cache :: (string, string) memo_cache) (Member DRONES))) (Member DRONES))
       = fst (run_query 0 store_a (empty_cache :: (string, string) memo_cache) (Member DRONES))
     \<and> backing_store_reads
        (snd (run_query 9 store_b (snd (run_query 0 store_a (empty_cache :: (string, string) memo_cache) (Member DRONES))) (Member DRONES)))
       = backing_store_reads (empty_cache :: (string, string) memo_cache) + 1"
    by blast
  from c3 have c3': "fst (run_query 9 store_b (snd (run_query 0 store_a (empty_cache :: (string, string) memo_cache) (Member DRONES))) (Member DRONES))
       = Inr (DroneRows [D1])
     \<and> backing_store_reads
        (snd (run_query 9 store_b (snd (run_query 0 store_a (empty_cache :: (string, string) memo_cache) (Member DRONES))) (Member DRONES)))
       = 1"
    by (simp add: eval_a e)
  from hit old new c1 c2 c3' show ?thesis by blast
qed

lemma after_first_eq: "after_first = cache_a"
  by (simp add: after_first_def eval_a)

lemma after_second_eq: "after_second = cache_a"
  by (simp add: after_second_def after_first_eq run_query_def cache_a_def ttl_def)

lemma after_third_eq: "after_third = cache_a"
  by (simp add: after_third_def after_second_eq run_query_def cache_a_def ttl_def)

text \<open>
  C9, as stated: fetches at times 0 and 2 return the same capture time and the
  fetch at time 9 returns a new one. This fails: at time 9 the entry captured
  at time 0 is still younger than 10.
\<close>

theorem third_fetch_counterexample:
  "\<not> (captured_at after_second (Member DRONES) = captured_at after_first (Member DRONES)
      \<and> captured_at after_third (Member DRONES) \<noteq> captured_at after_first (Member DRONES))"
  by (simp add: after_first_eq after_second_eq after_third_eq)

lemma captured_at_call_body:
  "captured_at (snd (call_body now db st (Member k))) (Member k) = Some now"
  by (simp add: call_body_Member captured_at_def)

lemma captured_at_hit:
  "captured_at st q = Some t \<Longrightarrow> now - t < ttl \<Longrightarrow> snd (run_query now db st q) = st"
  by (auto simp: captured_at_def run_query_def split: option.splits)

lemma captured_at_expired:
  "captured_at st q = Some t \<Longrightarrow> ttl \<le> now - t \<Longrightarrow> stale st q now"
  by (auto simp: captured_at_def stale_def split: option.splits)

text \<open>
  C9, amended: with the time-to-live 10, after a miss at time \<open>t0\<close> the fetches
  2 and 9 time units later both return the snapshot captured at \<open>t0\<close>; a fetch
  made 10 or more time units after the first returns a snapshot with a new
  capture time.
\<close>

theorem fetch_timestamps_within_ttl:
  "stale st (Member k) t0 \<longrightarrow>
     (let st1 = snd (run_query t0 db0 st (Member k));
          st2 = snd (run_query (t0 + 2) db1 st1 (Member k));
          st3 = snd (run_query (t0 + 9) db2 st2 (Member k));
          st4 = snd (run_query t4 db3 st3 (Member k))
      in captured_at st1 (Member k) = Some t0
       \<and> captured_at st2 (Member k) = Some t0
       \<and> captured_at st3 (Member k) = Some t0
       \<and> (t0 + ttl \<le> t4 \<longrightarrow>
            captured_at st4 (Member k) = Some t4
          \<and> captured_at st4 (Member k) \<noteq> captured_at st1 (Member k)))"
proof
  assume m: "stale st (Member k) t0"
  define st1 where "st1 = snd (run_query t0 db0 st (Member k))"
  define st2 where "st2 = snd (run_query (t0 + 2) db1 st1 (Member k))"
  define st3 where "st3 = snd (run_query (t0 + 9) db2 st2 (Member k))"
  define st4 where "st4 = snd (run_query t4 db3 st3 (Member k))"
  have c1: "captured_at st1 (Member k) = Some t0"
    unfolding st1_def run_query_stale [OF m] by (rule captured_at_call_body)
  have "st2 = st1"
    unfolding st2_def by (rule captured_at_hit [OF c1]) (simp add: ttl_def)
  with c1 have c2: "captured_at st2 (Member k) = Some t0"
    by simp
  have "st3 = st2"
    unfolding st3_def by (rule captured_at_hit [OF c2]) (simp add: ttl_def)
  with c2 have c3: "captured_at st3 (Member k) = Some t0"
    by simp
  have c4: "captured_at st4 (Member k) = Some t4
      \<and> captured_at st4 (Member k) \<noteq> captured_at st1 (Member k)" if late: "t0 + ttl \<le> t4"
  proof -
    from late have "ttl \<le> t4 - t0" by simp
    with c3 have "stale st3 (Member k) t4"
      by (rule captured_at_expired)
    then have "captured_at st4 (Member k) = Some t4"
      unfolding st4_def by (simp add: run_query_stale captured_at_call_body)
    moreover from late have "t4 \<noteq> t0"
      by (simp add: ttl_def)
    ultimately show ?thesis
      using c1 by simp
  qed
  from c1 c2 c3 c4 show "let st1 = snd (run_query t0 db0 st (Member k));
          st2 = snd (run_query (t0 + 2) db1 st1 (Member k));
          st3 = snd (run_query (t0 + 9) db2 st2 (Member k));
          st4 = snd (run_query t4 db3 st3 (Member k))
      in captured_at st1 (Member k) = Some t0
       \<and> captured_at st2 (Member k) = Some t0
       \<and> captured_at st3 (Member k) = Some t0
       \<and> (t0 + ttl \<le> t4 \<longrightarrow>
            captured_at st4 (Member k) = Some t4
          \<and> captured_at st4 (Member k) \<noteq> captured_at st1 (Member k))"
    unfolding Let_def st1_def st2_def st3_def st4_def by blast
qed

theorem fetch_timestamps_within_ttl_witness:
  "stale (empty_cache :: (string, string) memo_cache) (Member DRONES) 0
   \<and> captured_at after_first (Member DRONES) = Some 0
   \<and> captured_at after_second (Member DRONES) = Some 0
   \<and> captured_at after_third (Member DRONES) = Some 0
   \<and> (0::int) + ttl \<le> 10
   \<and> captured_at after_fourth (Member DRONES) = Some 10
   \<and> captured_at after_fourth (Member DRONES) \<noteq> captured_at after_first (Member DRONES)"
proof -
  have new: "stale (empty_cache :: (string, string) memo_cache) (Member DRONES) 0"
    by (simp add: stale_def empty_cache_def)
  have late: "(0::int) + ttl \<le> 10"
    by (simp add: ttl_def)
  have inst: "captured_at after_first (Member DRONES) = Some 0
       \<and> captured_at after_second (Member DRONES) = Some 0
       \<and> captured_at after_third (Member DRONES) = Some 0
       \<and> (0 + ttl \<le> 10 \<longrightarrow>
            captured_at after_fourth (Member DRONES) = Some 10
          \<and> captured_at after_fourth (Member DRONES) \<noteq> captured_at after_first (Member DRONES))"
    using new
      fetch_timestamps_within_ttl [of "empty_cache :: (string, string) memo_cache" DRONES 0
        store_a store_b store_b 10 store_b]
    unfolding Let_def after_first_def after_second_def after_third_def after_fourth_def
    by simp
  from new late inst show ?thesis by blast
qed

end
